theory Spec2Isabelle
  imports Complex_Main
begin

section \<open>JavaScript values\<close>

text \<open>
  The values that \<^verbatim>\<open>JSON.parse\<close> returns and that the code passes around, with
  \<^verbatim>\<open>undefined\<close> for what a property read yields when the property is absent.
  A number is given by its numeric value; only the comparison with zero is ever made on it.
  \<open>JObj\<close> lists the properties of a parsed object (one entry per key).
\<close>

datatype jsval =
    JUndefined
  | JNull
  | JBool bool
  | JNum rat
  | JStr string
  | JArr "jsval list"
  | JObj "(string \<times> jsval) list"

text \<open>The exceptions the code can meet, by constructor name and message.\<close>

datatype error = TypeError string | SyntaxError string | Error string

text \<open>JavaScript's truthiness: \<^verbatim>\<open>!v\<close> is \<open>\<not> truthy v\<close>.\<close>

fun truthy :: "jsval \<Rightarrow> bool" where
  "truthy JUndefined = False"
| "truthy JNull = False"
| "truthy (JBool b) = b"
| "truthy (JNum q) = (q \<noteq> 0)"
| "truthy (JStr s) = (s \<noteq> [])"
| "truthy (JArr _) = True"
| "truthy (JObj _) = True"

text \<open>
  Reading a property \<^verbatim>\<open>v.k\<close> (also through a destructuring pattern \<^verbatim>\<open>{k} = v\<close>):
  a TypeError on \<^verbatim>\<open>null\<close> and \<^verbatim>\<open>undefined\<close>, the property's value on an object,
  \<^verbatim>\<open>undefined\<close> when there is none. The keys read by this program (room, username,
  token) are no built-in property of a string, number, boolean or array.
\<close>

fun get_prop :: "jsval \<Rightarrow> string \<Rightarrow> error + jsval" where
  "get_prop JUndefined k = Inl (TypeError ''Cannot read properties of undefined'')"
| "get_prop JNull k = Inl (TypeError ''Cannot read properties of null'')"
| "get_prop (JObj kvs) k = Inr (case map_of kvs k of None \<Rightarrow> JUndefined | Some v \<Rightarrow> v)"
| "get_prop _ k = Inr JUndefined"

text \<open>A value of \<^verbatim>\<open>process.env\<close>: a string or \<^verbatim>\<open>undefined\<close>.\<close>

fun env_val :: "string option \<Rightarrow> jsval" where
  "env_val None = JUndefined"
| "env_val (Some s) = JStr s"

section \<open>The token route: \<^verbatim>\<open>src/app/api/token/route.ts\<close>\<close>

record response =
  status :: nat
  body :: jsval

text \<open>\<^verbatim>\<open>NextResponse.json(body, {status})\<close>; the status is 200 when none is given.\<close>

definition NextResponse_json :: "jsval \<Rightarrow> nat \<Rightarrow> response" where
  "NextResponse_json b s = \<lparr>status = s, body = b\<rparr>"

text \<open>
  What the route hands to the vendor's \<^verbatim>\<open>AccessToken\<close>: the two constructor
  arguments, the options object and the grant object given to \<^verbatim>\<open>addGrant\<close>.
  Object literals are kept as their property lists.
\<close>

record AccessToken =
  at_apiKey :: jsval
  at_apiSecret :: jsval
  at_options :: "(string \<times> jsval) list"
  at_grants :: "(string \<times> jsval) list list"

definition new_AccessToken :: "jsval \<Rightarrow> jsval \<Rightarrow> (string \<times> jsval) list \<Rightarrow> AccessToken" where
  "new_AccessToken k s opts = \<lparr>at_apiKey = k, at_apiSecret = s, at_options = opts, at_grants = []\<rparr>"

definition addGrant :: "(string \<times> jsval) list \<Rightarrow> AccessToken \<Rightarrow> AccessToken" where
  "addGrant g a = a\<lparr>at_grants := at_grants a @ [g]\<rparr>"

text \<open>
  The request as the route reads it: the outcome of \<^verbatim>\<open>await request.json()\<close>,
  which rejects on a body that is not JSON.
\<close>

record request =
  req_json :: "error + jsval"

type_synonym env = "string \<Rightarrow> string option"

definition bad_request :: response where
  "bad_request = NextResponse_json (JObj [(''error'', JStr ''Room and username are required'')]) 400"

definition not_configured :: response where
  "not_configured = NextResponse_json (JObj [(''error'', JStr ''LiveKit credentials not configured'')]) 500"

definition generation_failed :: response where
  "generation_failed = NextResponse_json (JObj [(''error'', JStr ''Failed to generate token'')]) 500"

text \<open>
  The body of the \<^verbatim>\<open>try\<close> block. \<open>toJwt\<close> is the vendor's signer (\<^verbatim>\<open>at.toJwt()\<close>),
  a parameter: it returns the token or throws.
\<close>

definition POST_try :: "(AccessToken \<Rightarrow> error + string) \<Rightarrow> env \<Rightarrow> request \<Rightarrow> error + response" where
  "POST_try toJwt env req =
    (case req_json req of
       Inl e \<Rightarrow> Inl e
     | Inr b \<Rightarrow>
       (case get_prop b ''room'' of
          Inl e \<Rightarrow> Inl e
        | Inr room \<Rightarrow>
          (case get_prop b ''username'' of
             Inl e \<Rightarrow> Inl e
           | Inr username \<Rightarrow>
             if \<not> truthy room \<or> \<not> truthy username then Inr bad_request
             else
               let apiKey = env_val (env ''LIVEKIT_API_KEY'');
                   apiSecret = env_val (env ''LIVEKIT_API_SECRET'')
               in if \<not> truthy apiKey \<or> \<not> truthy apiSecret
                  then Inr not_configured
                  else
                    let tok = new_AccessToken apiKey apiSecret
                                [(''identity'', username), (''ttl'', JStr ''10m'')];
                        tok = addGrant [(''room'', room), (''roomJoin'', JBool True),
                                        (''canPublish'', JBool True), (''canSubscribe'', JBool True)] tok
                    in (case toJwt tok of
                          Inl e \<Rightarrow> Inl e
                        | Inr token \<Rightarrow> Inr (NextResponse_json (JObj [(''token'', JStr token)]) 200)))))"

text \<open>The handler: what the \<^verbatim>\<open>try\<close> block returns, or the catch-all response.\<close>

definition POST :: "(AccessToken \<Rightarrow> error + string) \<Rightarrow> env \<Rightarrow> request \<Rightarrow> response" where
  "POST toJwt env req =
    (case POST_try toJwt env req of
       Inl e \<Rightarrow> generation_failed
     | Inr r \<Rightarrow> r)"

text \<open>What the catch block writes with \<^verbatim>\<open>console.error\<close>.\<close>

definition POST_console :: "(AccessToken \<Rightarrow> error + string) \<Rightarrow> env \<Rightarrow> request \<Rightarrow> (string \<times> error) list" where
  "POST_console toJwt env req =
    (case POST_try toJwt env req of
       Inl e \<Rightarrow> [(''Error generating token:'', e)]
     | Inr r \<Rightarrow> [])"

section \<open>The page component (\<^verbatim>\<open>VoiceChatRoom\<close> and \<^verbatim>\<open>Home\<close>)\<close>

subsection \<open>Strings and arrays\<close>

text \<open>The decimal text of a non-negative integer, as a template literal renders it.\<close>

definition digit_char :: "nat \<Rightarrow> char" where
  "digit_char d = ''0123456789'' ! (d mod 10)"

function show_nat :: "nat \<Rightarrow> string" where
  "show_nat n =
    (if n < 10 then [digit_char n]
     else show_nat (n div 10) @ [digit_char (n mod 10)])"
  by pat_completeness auto
termination
  by (relation "measure (\<lambda>n. n)") auto

declare show_nat.simps [simp del]

text \<open>\<open>sub\<close> stands at the start of \<open>s\<close>.\<close>

fun starts_with :: "string \<Rightarrow> string \<Rightarrow> bool" where
  "starts_with s [] = True"
| "starts_with [] (p # ps) = False"
| "starts_with (c # cs) (p # ps) = (c = p \<and> starts_with cs ps)"

text \<open>\<^verbatim>\<open>s.includes(sub)\<close>: \<open>sub\<close> occurs in \<open>s\<close> at some position.\<close>

fun str_includes :: "string \<Rightarrow> string \<Rightarrow> bool" where
  "str_includes [] sub = (sub = [])"
| "str_includes (c # cs) sub = (starts_with (c # cs) sub \<or> str_includes cs sub)"

text \<open>\<^verbatim>\<open>xs.slice(-n)\<close>: the last \<open>n\<close> elements, all of them when there are fewer.\<close>

definition slice_from_end :: "nat \<Rightarrow> 'a list \<Rightarrow> 'a list" where
  "slice_from_end n xs = drop (length xs - n) xs"

subsection \<open>The room: event listeners and text-stream handlers\<close>

text \<open>
  A function object is an identity together with its code: \<^verbatim>\<open>room.off\<close> looks for
  the same object, and every evaluation of an arrow function makes a new one.
\<close>

datatype callback =
    SetIsConnected bool
  | HandleTrackPublished
  | HandleTrackUnpublished
  | HandleTranscriptionStream

record fn =
  fn_id :: nat
  fn_code :: callback

datatype RoomEvent = Connected | Disconnected | TrackPublished | TrackUnpublished

record room =
  listeners :: "(RoomEvent \<times> fn) list"
  textStreamHandlers :: "(string \<times> fn) list"

text \<open>
  The event emitter of the room: \<^verbatim>\<open>on\<close> adds a listener after those already there;
  \<^verbatim>\<open>off\<close> removes the most recently added listener of the event that is the given
  function object, and nothing when there is none.
\<close>

definition room_on :: "RoomEvent \<Rightarrow> fn \<Rightarrow> room \<Rightarrow> room" where
  "room_on ev f r = r\<lparr>listeners := listeners r @ [(ev, f)]\<rparr>"

fun remove_first :: "('a \<Rightarrow> bool) \<Rightarrow> 'a list \<Rightarrow> 'a list" where
  "remove_first P [] = []"
| "remove_first P (x # xs) = (if P x then xs else x # remove_first P xs)"

definition same_listener :: "RoomEvent \<Rightarrow> fn \<Rightarrow> RoomEvent \<times> fn \<Rightarrow> bool" where
  "same_listener ev f l = (fst l = ev \<and> fn_id (snd l) = fn_id f)"

definition room_off :: "RoomEvent \<Rightarrow> fn \<Rightarrow> room \<Rightarrow> room" where
  "room_off ev f r = r\<lparr>listeners := rev (remove_first (same_listener ev f) (rev (listeners r)))\<rparr>"

text \<open>
  The calls of the vendor's client library whose failure the component guards against, and
  \<^verbatim>\<open>room.disconnect()\<close>, as parameters: each returns the room as the call leaves it,
  or throws.
\<close>

record sdk =
  registerTextStreamHandler :: "string \<Rightarrow> fn \<Rightarrow> room \<Rightarrow> error + room"
  unregisterTextStreamHandler :: "string \<Rightarrow> room \<Rightarrow> error + room"
  room_disconnect :: "room \<Rightarrow> room"

text \<open>
  The library as it behaves: one handler per topic, a second registration for a topic
  throws (the case the component's warning names), unregistration deletes the topic's
  handler.
\<close>

definition livekit :: sdk where
  "livekit =
    \<lparr>registerTextStreamHandler = (\<lambda>topic f r.
        if map_of (textStreamHandlers r) topic \<noteq> None
        then Inl (TypeError ''A text stream handler for this topic has already been set.'')
        else Inr (r\<lparr>textStreamHandlers := textStreamHandlers r @ [(topic, f)]\<rparr>)),
      unregisterTextStreamHandler = (\<lambda>topic r.
        Inr (r\<lparr>textStreamHandlers := filter (\<lambda>h. fst h \<noteq> topic) (textStreamHandlers r)\<rparr>)),
      room_disconnect = (\<lambda>r. r)\<rparr>"

subsection \<open>The state of \<^verbatim>\<open>VoiceChatRoom\<close>\<close>

record ChatMessage =
  msg_id :: string
  participant :: string
  msg_text :: string
  timestamp :: nat
  isFinal :: bool
  isTyping :: "bool option"

datatype log_entry = ConsoleWarn string error | ConsoleError string error

record world =
  w_room :: "room option"
  isConnected :: bool
  chatMessages :: "ChatMessage list"
  isAgentTyping :: bool
  console :: "log_entry list"
  next_fn :: nat

definition new_fn :: "callback \<Rightarrow> world \<Rightarrow> fn \<times> world" where
  "new_fn c w = (\<lparr>fn_id = next_fn w, fn_code = c\<rparr>, w\<lparr>next_fn := Suc (next_fn w)\<rparr>)"

definition upd_room :: "(room \<Rightarrow> room) \<Rightarrow> world \<Rightarrow> world" where
  "upd_room f w = w\<lparr>w_room := map_option f (w_room w)\<rparr>"

definition setChatMessages :: "(ChatMessage list \<Rightarrow> ChatMessage list) \<Rightarrow> world \<Rightarrow> world" where
  "setChatMessages f w = w\<lparr>chatMessages := f (chatMessages w)\<rparr>"

subsection \<open>The transcription stream handler\<close>

text \<open>
  One invocation of the handler: what \<^verbatim>\<open>reader.readAll()\<close> resolves to or rejects
  with, \<^verbatim>\<open>reader.info.attributes\<close> (which the library's type leaves optional),
  the participant's identity, and the clock and random readings of the call
  (\<^verbatim>\<open>Date.now()\<close>, the text of \<^verbatim>\<open>Math.random()\<close>, \<^verbatim>\<open>new Date()\<close>).
\<close>

record stream_call =
  sc_readAll :: "error + string"
  sc_attributes :: "(string \<times> string) list option"
  sc_identity :: string
  sc_now :: nat
  sc_random :: string
  sc_date :: nat

text \<open>The \<^verbatim>\<open>try\<close> block up to the message it builds.\<close>

definition build_message :: "stream_call \<Rightarrow> error + ChatMessage" where
  "build_message c =
    (case sc_readAll c of
       Inl e \<Rightarrow> Inl e
     | Inr transcriptionText \<Rightarrow>
       (case sc_attributes c of
          None \<Rightarrow> Inl (TypeError ''Cannot read properties of undefined'')
        | Some attributes \<Rightarrow>
          let isAgentTranscription = map_of attributes ''lk.transcribed_track_id'';
              speakerIdentity = sc_identity c;
              messageId = speakerIdentity @ ''-'' @ show_nat (sc_now c) @ ''-'' @ sc_random c
          in Inr \<lparr>msg_id = messageId,
                  participant = (if str_includes speakerIdentity ''agent'' then ''Agent'' else ''You''),
                  msg_text = transcriptionText,
                  timestamp = sc_date c,
                  isFinal = True,
                  isTyping = None\<rparr>))"

definition handleTranscriptionStream :: "stream_call \<Rightarrow> world \<Rightarrow> world" where
  "handleTranscriptionStream c w =
    (case build_message c of
       Inl e \<Rightarrow> w\<lparr>console := console w @ [ConsoleError ''Error handling transcription stream:'' e]\<rparr>
     | Inr message \<Rightarrow>
       let w = setChatMessages (\<lambda>prev. slice_from_end 50 (prev @ [message])) w
       in if participant message = ''Agent'' then w\<lparr>isAgentTyping := False\<rparr> else w)"

subsection \<open>Track events\<close>

text \<open>
  The payload of a track event: the track's kind and whether the participant is
  \<^verbatim>\<open>room.localParticipant\<close>.
\<close>

record track_event =
  track_kind :: string
  is_localParticipant :: bool

definition handleTrackPublished :: "track_event \<Rightarrow> world \<Rightarrow> world" where
  "handleTrackPublished t w =
    (if \<not> is_localParticipant t \<and> track_kind t = ''audio'' then w\<lparr>isAgentTyping := True\<rparr> else w)"

definition handleTrackUnpublished :: "track_event \<Rightarrow> world \<Rightarrow> world" where
  "handleTrackUnpublished t w =
    (if \<not> is_localParticipant t \<and> track_kind t = ''audio'' then w\<lparr>isAgentTyping := False\<rparr> else w)"

datatype payload = NoPayload | TrackPayload track_event | StreamPayload stream_call

text \<open>Calling a function object of the component with an event's payload.\<close>

fun call_fn :: "callback \<Rightarrow> payload \<Rightarrow> world \<Rightarrow> world" where
  "call_fn (SetIsConnected b) p w = w\<lparr>isConnected := b\<rparr>"
| "call_fn HandleTrackPublished (TrackPayload t) w = handleTrackPublished t w"
| "call_fn HandleTrackUnpublished (TrackPayload t) w = handleTrackUnpublished t w"
| "call_fn HandleTranscriptionStream (StreamPayload c) w = handleTranscriptionStream c w"
| "call_fn c p w = w"

text \<open>The room emits an event: its listeners for the event run in the order they were added.\<close>

definition listeners_of :: "RoomEvent \<Rightarrow> world \<Rightarrow> fn list" where
  "listeners_of ev w =
    (case w_room w of
       None \<Rightarrow> []
     | Some r \<Rightarrow> map snd (filter (\<lambda>l. fst l = ev) (listeners r)))"

definition emit :: "RoomEvent \<Rightarrow> payload \<Rightarrow> world \<Rightarrow> world" where
  "emit ev p w = foldl (\<lambda>w f. call_fn (fn_code f) p w) w (listeners_of ev w)"

subsection \<open>The effect that subscribes to the room, and its cleanup\<close>

text \<open>What the cleanup closure keeps of the effect's run: the two named handlers.\<close>

record cleanup =
  cl_handleTrackPublished :: fn
  cl_handleTrackUnpublished :: fn

text \<open>
  \<^verbatim>\<open>try { room.registerTextStreamHandler('lk.transcription', h) } catch (error) { console.warn(...) }\<close>
\<close>

definition try_register :: "sdk \<Rightarrow> fn \<Rightarrow> room \<Rightarrow> world \<Rightarrow> error + world" where
  "try_register K h r w =
    (case registerTextStreamHandler K ''lk.transcription'' h r of
       Inl e \<Rightarrow> Inl e
     | Inr r' \<Rightarrow> Inr (w\<lparr>w_room := Some r'\<rparr>))"

definition register_guarded :: "sdk \<Rightarrow> fn \<Rightarrow> room \<Rightarrow> world \<Rightarrow> error + world" where
  "register_guarded K h r w =
    (case try_register K h r w of
       Inl e \<Rightarrow> Inr (w\<lparr>console := console w @ [ConsoleWarn ''Transcription handler already registered:'' e]\<rparr>)
     | Inr w' \<Rightarrow> Inr w')"

text \<open>
  The effect of \<^verbatim>\<open>useEffect(..., [room])\<close> when it runs: nothing without a room;
  otherwise the three handlers are created, the stream handler is registered under the
  guard, four listeners are added (two of them arrow functions written in place), and the
  cleanup is returned. A thrown error is \<open>Inl\<close>.
\<close>

definition useEffect_room :: "sdk \<Rightarrow> world \<Rightarrow> error + world \<times> cleanup option" where
  "useEffect_room K w =
    (case w_room w of
       None \<Rightarrow> Inr (w, None)
     | Some r \<Rightarrow>
       let (hStream, w) = new_fn HandleTranscriptionStream w;
           (hPublished, w) = new_fn HandleTrackPublished w;
           (hUnpublished, w) = new_fn HandleTrackUnpublished w
       in (case register_guarded K hStream r w of
             Inl e \<Rightarrow> Inl e
           | Inr w \<Rightarrow>
             let (f, w) = new_fn (SetIsConnected True) w;
                 w = upd_room (room_on Connected f) w;
                 (g, w) = new_fn (SetIsConnected False) w;
                 w = upd_room (room_on Disconnected g) w;
                 w = upd_room (room_on TrackPublished hPublished) w;
                 w = upd_room (room_on TrackUnpublished hUnpublished) w
             in Inr (w, Some \<lparr>cl_handleTrackPublished = hPublished,
                              cl_handleTrackUnpublished = hUnpublished\<rparr>)))"

text \<open>
  \<^verbatim>\<open>try { room.unregisterTextStreamHandler('lk.transcription') } catch (error) { console.warn(...) }\<close>
\<close>

definition try_unregister :: "sdk \<Rightarrow> room \<Rightarrow> world \<Rightarrow> error + world" where
  "try_unregister K r w =
    (case unregisterTextStreamHandler K ''lk.transcription'' r of
       Inl e \<Rightarrow> Inl e
     | Inr r' \<Rightarrow> Inr (w\<lparr>w_room := Some r'\<rparr>))"

definition unregister_guarded :: "sdk \<Rightarrow> room \<Rightarrow> world \<Rightarrow> error + world" where
  "unregister_guarded K r w =
    (case try_unregister K r w of
       Inl e \<Rightarrow> Inr (w\<lparr>console := console w @ [ConsoleWarn ''Error unregistering transcription handler:'' e]\<rparr>)
     | Inr w' \<Rightarrow> Inr w')"

text \<open>
  The cleanup function. It exists only when the effect found a room. The first two
  \<^verbatim>\<open>room.off\<close> calls are given arrow functions written in place, the last two the
  handlers the effect created.
\<close>

definition run_cleanup :: "sdk \<Rightarrow> cleanup \<Rightarrow> world \<Rightarrow> error + world" where
  "run_cleanup K c w =
    (case w_room w of
       None \<Rightarrow> Inr w
     | Some r \<Rightarrow>
       (case unregister_guarded K r w of
          Inl e \<Rightarrow> Inl e
        | Inr w \<Rightarrow>
          let (f, w) = new_fn (SetIsConnected True) w;
              w = upd_room (room_off Connected f) w;
              (g, w) = new_fn (SetIsConnected False) w;
              w = upd_room (room_off Disconnected g) w;
              w = upd_room (room_off TrackPublished (cl_handleTrackPublished c)) w;
              w = upd_room (room_off TrackUnpublished (cl_handleTrackUnpublished c)) w
          in Inr w))"

text \<open>Mount, then unmount: the effect followed by the cleanup it returned.\<close>

definition mount_unmount :: "sdk \<Rightarrow> world \<Rightarrow> error + world" where
  "mount_unmount K w =
    (case useEffect_room K w of
       Inl e \<Rightarrow> Inl e
     | Inr (w', None) \<Rightarrow> Inr w'
     | Inr (w', Some c) \<Rightarrow> run_cleanup K c w')"

subsection \<open>The End Call control\<close>

definition disconnect :: "sdk \<Rightarrow> world \<Rightarrow> world" where
  "disconnect K w =
    (let w = upd_room (room_disconnect K) w;
         w = setChatMessages (\<lambda>prev. []) w;
         w = w\<lparr>isAgentTyping := False\<rparr>
     in w)"

subsection \<open>What the component goes through\<close>

text \<open>
  The component's state changes only through these: the library invoking the stream
  handler, the room emitting an event, and the user pressing End Call.
\<close>

datatype action =
    Transcription stream_call
  | Emit RoomEvent payload
  | EndCall

fun step :: "sdk \<Rightarrow> world \<Rightarrow> action \<Rightarrow> world" where
  "step K w (Transcription c) = handleTranscriptionStream c w"
| "step K w (Emit ev p) = emit ev p w"
| "step K w EndCall = disconnect K w"

definition run :: "sdk \<Rightarrow> world \<Rightarrow> action list \<Rightarrow> world" where
  "run K w acts = foldl (step K) w acts"

text \<open>The component's first render on a room with nothing attached to it yet.\<close>

definition new_room :: room where
  "new_room = \<lparr>listeners = [], textStreamHandlers = []\<rparr>"

definition initial_world :: world where
  "initial_world =
    \<lparr>w_room = Some new_room, isConnected = False, chatMessages = [],
      isAgentTyping = False, console = [], next_fn = 0\<rparr>"

subsection \<open>Rendering a message\<close>

text \<open>The class of the paragraph that shows a message's text.\<close>

definition text_className :: "ChatMessage \<Rightarrow> string" where
  "text_className message =
    (if participant message = ''Agent''
     then ''text-sm text-blue-900 '' @ (if \<not> isFinal message then ''italic opacity-75'' else [])
     else ''text-sm text-gray-900 '' @ (if \<not> isFinal message then ''italic opacity-75'' else []))"

subsection \<open>\<^verbatim>\<open>Home\<close>: the join flow\<close>

record home =
  token :: jsval
  isJoining :: bool
  alerts :: "string list"
  home_console :: "log_entry list"

text \<open>
  What \<^verbatim>\<open>fetch\<close> gave: a rejection, or a response with its \<^verbatim>\<open>ok\<close> flag and
  what \<^verbatim>\<open>response.json()\<close> resolves to or rejects with.
\<close>

datatype fetch_outcome =
    FetchRejected error
  | FetchResponse bool "error + jsval"

text \<open>The body the join flow sends; \<open>now\<close> is \<^verbatim>\<open>Date.now()\<close>.\<close>

definition joinRoom_body :: "nat \<Rightarrow> jsval" where
  "joinRoom_body now =
    JObj [(''room'', JStr ''weather-chat-room''), (''username'', JStr (''user-'' @ show_nat now))]"

text \<open>The \<^verbatim>\<open>try\<close> block of \<^verbatim>\<open>joinRoom\<close>: the value given to \<^verbatim>\<open>setToken\<close>, or the error thrown.\<close>

definition joinRoom_try :: "fetch_outcome \<Rightarrow> error + jsval" where
  "joinRoom_try f =
    (case f of
       FetchRejected e \<Rightarrow> Inl e
     | FetchResponse ok js \<Rightarrow>
       if \<not> ok then Inl (Error ''Failed to get token'')
       else (case js of
               Inl e \<Rightarrow> Inl e
             | Inr data \<Rightarrow> get_prop data ''token''))"

definition joinRoom :: "fetch_outcome \<Rightarrow> home \<Rightarrow> home" where
  "joinRoom f h =
    (let h = h\<lparr>isJoining := True\<rparr>;
         h = (case joinRoom_try f of
                Inl e \<Rightarrow> h\<lparr>home_console := home_console h @ [ConsoleError ''Error joining room:'' e],
                           alerts := alerts h @ [''Failed to join room. Please try again.'']\<rparr>
              | Inr t \<Rightarrow> h\<lparr>token := t\<rparr>)
     in h\<lparr>isJoining := False\<rparr>)"

text \<open>\<^verbatim>\<open>if (!token)\<close>: the join screen is what \<^verbatim>\<open>Home\<close> renders.\<close>

definition shows_join_screen :: "home \<Rightarrow> bool" where
  "shows_join_screen h = (\<not> truthy (token h))"

definition initial_home :: home where
  "initial_home = \<lparr>token = JStr [], isJoining = False, alerts = [], home_console = []\<rparr>"

section \<open>The specification's terms, and inputs for the examples\<close>

text \<open>
  The token as the specification describes it: identity the username, a lifetime of ten
  minutes, and one grant for the requested room with the rights to join, publish and
  subscribe. The route's own construction is compared with it.
\<close>

definition spec_AccessToken :: "jsval \<Rightarrow> jsval \<Rightarrow> jsval \<Rightarrow> jsval \<Rightarrow> AccessToken" where
  "spec_AccessToken key secret room username =
    \<lparr>at_apiKey = key, at_apiSecret = secret,
      at_options = [(''identity'', username), (''ttl'', JStr ''10m'')],
      at_grants = [[(''room'', room), (''roomJoin'', JBool True),
                    (''canPublish'', JBool True), (''canSubscribe'', JBool True)]]\<rparr>"

text \<open>
  A field of the request in the specification's sense: the value the body gives it, and
  \<^verbatim>\<open>undefined\<close> (missing) when the body gives none, also when there is no body
  that can be read.
\<close>

definition request_field :: "request \<Rightarrow> string \<Rightarrow> jsval" where
  "request_field req k =
    (case req_json req of
       Inl e \<Rightarrow> JUndefined
     | Inr b \<Rightarrow> (case get_prop b k of Inl e \<Rightarrow> JUndefined | Inr v \<Rightarrow> v))"

text \<open>A request whose body parsed, an environment with both credentials, a signer that returns.\<close>

definition json_request :: "jsval \<Rightarrow> request" where
  "json_request b = \<lparr>req_json = Inr b\<rparr>"

definition configured_env :: env where
  "configured_env = map_of [(''LIVEKIT_API_KEY'', ''key''), (''LIVEKIT_API_SECRET'', ''secret'')]"

definition constant_signer :: "AccessToken \<Rightarrow> error + string" where
  "constant_signer tok = Inr ''jwt''"

text \<open>What one invocation of the stream handler appends: its message, or nothing when it threw.\<close>

definition appended :: "stream_call \<Rightarrow> ChatMessage list" where
  "appended c = (case build_message c of Inl e \<Rightarrow> [] | Inr m \<Rightarrow> [m])"

text \<open>The component after its effect ran on the first render.\<close>

definition mounted_world :: world where
  "mounted_world =
    (case useEffect_room livekit initial_world of
       Inl e \<Rightarrow> initial_world
     | Inr (w, c) \<Rightarrow> w)"

text \<open>A transcription of the user's speech, and one of the agent's.\<close>

definition user_call :: stream_call where
  "user_call =
    \<lparr>sc_readAll = Inr ''hello'', sc_attributes = Some [], sc_identity = ''user-1700000000000'',
      sc_now = 1700000000123, sc_random = ''0.5'', sc_date = 1700000000123\<rparr>"

definition agent_call :: stream_call where
  "agent_call =
    \<lparr>sc_readAll = Inr ''sunny today'', sc_attributes = Some [(''lk.transcribed_track_id'', ''TR_1'')],
      sc_identity = ''agent-AJ_1'', sc_now = 1700000000456, sc_random = ''0.25'',
      sc_date = 1700000000456\<rparr>"

text \<open>A library whose unregistration throws, for the guard around it.\<close>

definition failing_unregister :: sdk where
  "failing_unregister =
    livekit\<lparr>unregisterTextStreamHandler := (\<lambda>topic r. Inl (Error ''unregister failed''))\<rparr>"

text \<open>
  The messages appended since the last End Call, in the order they were appended, over what
  the component went through.
\<close>

fun collect :: "ChatMessage list \<Rightarrow> action \<Rightarrow> ChatMessage list" where
  "collect xs (Transcription c) = xs @ appended c"
| "collect xs (Emit ev p) = xs"
| "collect xs EndCall = []"

definition appended_since_end_call :: "action list \<Rightarrow> ChatMessage list" where
  "appended_since_end_call acts = foldl collect [] acts"

section \<open>The token route: responses\<close>

lemma responses_distinct:
  "generation_failed \<noteq> bad_request" "generation_failed \<noteq> not_configured" "bad_request \<noteq> not_configured"
  "NextResponse_json (JObj [(''token'', JStr t)]) 200 \<noteq> not_configured"
  by (simp_all add: generation_failed_def bad_request_def not_configured_def NextResponse_json_def)

lemma POST_falsy_input:
  assumes "req_json req = Inr b" "get_prop b ''room'' = Inr room" "get_prop b ''username'' = Inr username"
    and "\<not> truthy room \<or> \<not> truthy username"
  shows "POST toJwt env req = bad_request"
  using assms by (auto simp add: POST_def POST_try_def)

lemma POST_no_credentials:
  assumes "req_json req = Inr b" "get_prop b ''room'' = Inr room" "get_prop b ''username'' = Inr username"
    and "truthy room" "truthy username"
    and "\<not> truthy (env_val (env ''LIVEKIT_API_KEY'')) \<or> \<not> truthy (env_val (env ''LIVEKIT_API_SECRET''))"
  shows "POST toJwt env req = not_configured"
  using assms by (auto simp add: POST_def POST_try_def Let_def)

lemma POST_token:
  assumes "req_json req = Inr b" "get_prop b ''room'' = Inr room" "get_prop b ''username'' = Inr username"
    and "truthy room" "truthy username"
    and "truthy (env_val (env ''LIVEKIT_API_KEY''))" "truthy (env_val (env ''LIVEKIT_API_SECRET''))"
  shows "POST toJwt env req =
     (case toJwt (spec_AccessToken (env_val (env ''LIVEKIT_API_KEY'')) (env_val (env ''LIVEKIT_API_SECRET'')) room username) of
        Inl e \<Rightarrow> generation_failed
      | Inr t \<Rightarrow> NextResponse_json (JObj [(''token'', JStr t)]) 200)"
  using assms by (auto simp add: POST_def POST_try_def Let_def spec_AccessToken_def new_AccessToken_def addGrant_def split: sum.splits)

lemma POST_unreadable:
  "req_json req = Inl e \<Longrightarrow> POST toJwt env req = generation_failed"
  "req_json req = Inr JNull \<Longrightarrow> POST toJwt env req = generation_failed"
  by (auto simp add: POST_def POST_try_def)

lemma get_prop_error: "get_prop b k = Inl e \<Longrightarrow> b = JNull \<or> b = JUndefined"
  by (cases b) auto

lemma status_simps:
  "status bad_request = 400" "status not_configured = 500" "status generation_failed = 500"
  "body bad_request = JObj [(''error'', JStr ''Room and username are required'')]"
  "body not_configured = JObj [(''error'', JStr ''LiveKit credentials not configured'')]"
  "body generation_failed = JObj [(''error'', JStr ''Failed to generate token'')]"
  by (simp_all add: generation_failed_def bad_request_def not_configured_def NextResponse_json_def)

text \<open>
  Claim C1, as the code has it. For a request whose body parsed to a value that can be
  destructured (anything but \<^verbatim>\<open>null\<close>): when \<open>room\<close> or \<open>username\<close> is missing or
  falsy (the empty string, \<^verbatim>\<open>null\<close>, \<^verbatim>\<open>false\<close>, zero) the response is the 400
  body; when both are truthy and one of the two credentials is absent or empty, the 500
  body "LiveKit credentials not configured"; when both are truthy, both credentials are
  non-empty and the signer returns a token, the response is 200 with that token.
\<close>

theorem token_route_responses:
  assumes "req_json req = Inr b"
    and "get_prop b ''room'' = Inr room"
    and "get_prop b ''username'' = Inr username"
  shows "(\<not> truthy room \<or> \<not> truthy username \<longrightarrow>
            POST toJwt env req = bad_request \<and> status (POST toJwt env req) = 400)
       \<and> (truthy room \<and> truthy username \<and>
            (\<not> truthy (env_val (env ''LIVEKIT_API_KEY'')) \<or> \<not> truthy (env_val (env ''LIVEKIT_API_SECRET''))) \<longrightarrow>
            POST toJwt env req = not_configured \<and> status (POST toJwt env req) = 500)
       \<and> (truthy room \<and> truthy username \<and>
            truthy (env_val (env ''LIVEKIT_API_KEY'')) \<and> truthy (env_val (env ''LIVEKIT_API_SECRET'')) \<and>
            toJwt (spec_AccessToken (env_val (env ''LIVEKIT_API_KEY'')) (env_val (env ''LIVEKIT_API_SECRET''))
                     room username) = Inr t \<longrightarrow>
            POST toJwt env req = \<lparr>status = 200, body = JObj [(''token'', JStr t)]\<rparr>)"
proof (intro conjI impI)
  assume falsy: "\<not> truthy room \<or> \<not> truthy username"
  show "POST toJwt env req = bad_request"
    by (rule POST_falsy_input [OF assms falsy])
  then show "status (POST toJwt env req) = 400"
    by (simp add: status_simps)
next
  assume h: "truthy room \<and> truthy username \<and>
    (\<not> truthy (env_val (env ''LIVEKIT_API_KEY'')) \<or> \<not> truthy (env_val (env ''LIVEKIT_API_SECRET'')))"
  show "POST toJwt env req = not_configured"
    using POST_no_credentials [OF assms] h by blast
  then show "status (POST toJwt env req) = 500"
    by (simp add: status_simps)
next
  assume h: "truthy room \<and> truthy username \<and>
    truthy (env_val (env ''LIVEKIT_API_KEY'')) \<and> truthy (env_val (env ''LIVEKIT_API_SECRET'')) \<and>
    toJwt (spec_AccessToken (env_val (env ''LIVEKIT_API_KEY'')) (env_val (env ''LIVEKIT_API_SECRET''))
             room username) = Inr t"
  then show "POST toJwt env req = \<lparr>status = 200, body = JObj [(''token'', JStr t)]\<rparr>"
    using POST_token [OF assms, of env toJwt] by (simp add: NextResponse_json_def)
qed

theorem token_route_responses_witness:
  "POST constant_signer configured_env (json_request (JObj [(''username'', JStr ''alice'')])) = bad_request
   \<and> POST constant_signer Map.empty
        (json_request (JObj [(''room'', JStr ''lobby''), (''username'', JStr ''alice'')])) = not_configured
   \<and> POST constant_signer configured_env
        (json_request (JObj [(''room'', JStr ''lobby''), (''username'', JStr ''alice'')]))
      = \<lparr>status = 200, body = JObj [(''token'', JStr ''jwt'')]\<rparr>"
proof (intro conjI)
  show "POST constant_signer configured_env (json_request (JObj [(''username'', JStr ''alice'')])) = bad_request"
    using token_route_responses
      [of "json_request (JObj [(''username'', JStr ''alice'')])" "JObj [(''username'', JStr ''alice'')]"
          JUndefined "JStr ''alice''" constant_signer configured_env]
    by (simp add: json_request_def)
  show "POST constant_signer Map.empty
        (json_request (JObj [(''room'', JStr ''lobby''), (''username'', JStr ''alice'')])) = not_configured"
    using token_route_responses
      [of "json_request (JObj [(''room'', JStr ''lobby''), (''username'', JStr ''alice'')])"
          "JObj [(''room'', JStr ''lobby''), (''username'', JStr ''alice'')]"
          "JStr ''lobby''" "JStr ''alice''" constant_signer Map.empty]
    by (simp add: json_request_def)
  show "POST constant_signer configured_env
        (json_request (JObj [(''room'', JStr ''lobby''), (''username'', JStr ''alice'')]))
      = \<lparr>status = 200, body = JObj [(''token'', JStr ''jwt'')]\<rparr>"
    using token_route_responses
      [of "json_request (JObj [(''room'', JStr ''lobby''), (''username'', JStr ''alice'')])"
          "JObj [(''room'', JStr ''lobby''), (''username'', JStr ''alice'')]"
          "JStr ''lobby''" "JStr ''alice''" constant_signer configured_env "''jwt''"]
    by (simp add: json_request_def configured_env_def constant_signer_def)
qed

text \<open>
  Claim C1 as stated fails where a field is present but empty: with both credentials set
  and \<open>room\<close> the empty string the response is 400 and carries no token. It also fails
  on the JSON body \<^verbatim>\<open>null\<close>, where both fields are missing and the response is the
  catch-all 500.
\<close>

theorem token_route_present_but_empty_counterexample:
  "request_field (json_request (JObj [(''room'', JStr []), (''username'', JStr ''alice'')])) ''room'' = JStr []
   \<and> request_field (json_request (JObj [(''room'', JStr []), (''username'', JStr ''alice'')])) ''username''
        = JStr ''alice''
   \<and> configured_env ''LIVEKIT_API_KEY'' = Some ''key''
   \<and> configured_env ''LIVEKIT_API_SECRET'' = Some ''secret''
   \<and> status (POST constant_signer configured_env
        (json_request (JObj [(''room'', JStr []), (''username'', JStr ''alice'')]))) = 400
   \<and> get_prop (body (POST constant_signer configured_env
        (json_request (JObj [(''room'', JStr []), (''username'', JStr ''alice'')])))) ''token'' = Inr JUndefined
   \<and> request_field (json_request JNull) ''room'' = JUndefined
   \<and> status (POST constant_signer configured_env (json_request JNull)) = 500"
  by (simp add: POST_def POST_try_def json_request_def configured_env_def bad_request_def
      generation_failed_def NextResponse_json_def request_field_def)

lemma POST_not_configured_only:
  assumes "POST toJwt env req = not_configured"
  shows "\<exists>b room username. req_json req = Inr b \<and> get_prop b ''room'' = Inr room \<and>
           get_prop b ''username'' = Inr username \<and> truthy room \<and> truthy username"
  using assms
  by (auto simp add: POST_def POST_try_def Let_def responses_distinct
      split: sum.splits if_splits)

text \<open>
  Claim C8, as the code has it. For a request whose body parsed to a value that can be
  destructured, a missing or falsy \<open>room\<close> or \<open>username\<close> gives the 400 response whatever
  the environment holds; and the response "LiveKit credentials not configured" is given only
  to a request whose \<open>room\<close> and \<open>username\<close> are both present and non-empty.
\<close>

theorem validation_precedes_credentials:
  "(req_json req = Inr b \<and> get_prop b ''room'' = Inr room \<and> get_prop b ''username'' = Inr username \<and>
      (\<not> truthy room \<or> \<not> truthy username) \<longrightarrow>
      POST toJwt env req = bad_request \<and> status (POST toJwt env req) = 400)
   \<and> (POST toJwt env req = not_configured \<longrightarrow>
        truthy (request_field req ''room'') \<and> truthy (request_field req ''username'') \<and>
        request_field req ''room'' \<noteq> JUndefined \<and> request_field req ''room'' \<noteq> JStr [] \<and>
        request_field req ''username'' \<noteq> JUndefined \<and> request_field req ''username'' \<noteq> JStr [])"
proof (intro conjI impI)
  assume h: "req_json req = Inr b \<and> get_prop b ''room'' = Inr room \<and>
    get_prop b ''username'' = Inr username \<and> (\<not> truthy room \<or> \<not> truthy username)"
  then show "POST toJwt env req = bad_request"
    using POST_falsy_input [of req b room username toJwt env] by blast
  then show "status (POST toJwt env req) = 400"
    by (simp add: status_simps)
next
  assume "POST toJwt env req = not_configured"
  from POST_not_configured_only [OF this]
  obtain b room username where
    "req_json req = Inr b" "get_prop b ''room'' = Inr room"
    "get_prop b ''username'' = Inr username" "truthy room" "truthy username"
    by blast
  then have r: "request_field req ''room'' = room" "request_field req ''username'' = username"
    and t: "truthy room" "truthy username"
    by (simp_all add: request_field_def)
  from r t show "truthy (request_field req ''room'')" "truthy (request_field req ''username'')"
    by simp_all
  from r t show "request_field req ''room'' \<noteq> JUndefined" "request_field req ''room'' \<noteq> JStr []"
    "request_field req ''username'' \<noteq> JUndefined" "request_field req ''username'' \<noteq> JStr []"
    by auto
qed

theorem validation_precedes_credentials_witness:
  "Map.empty ''LIVEKIT_API_KEY'' = (None :: string option)
   \<and> POST constant_signer Map.empty
        (json_request (JObj [(''room'', JStr []), (''username'', JStr ''alice'')])) = bad_request
   \<and> request_field (json_request (JObj [(''room'', JStr ''lobby''), (''username'', JStr ''alice'')])) ''room''
        = JStr ''lobby''"
proof (intro conjI)
  show "Map.empty ''LIVEKIT_API_KEY'' = (None :: string option)" by simp
  show "POST constant_signer Map.empty
        (json_request (JObj [(''room'', JStr []), (''username'', JStr ''alice'')])) = bad_request"
    using validation_precedes_credentials
      [of "json_request (JObj [(''room'', JStr []), (''username'', JStr ''alice'')])"
          "JObj [(''room'', JStr []), (''username'', JStr ''alice'')]"
          "JStr []" "JStr ''alice''" constant_signer Map.empty]
    by (simp add: json_request_def)
  have nc: "POST constant_signer Map.empty
        (json_request (JObj [(''room'', JStr ''lobby''), (''username'', JStr ''alice'')])) = not_configured"
    by (simp add: POST_def POST_try_def json_request_def)
  show "request_field (json_request (JObj [(''room'', JStr ''lobby''), (''username'', JStr ''alice'')])) ''room''
        = JStr ''lobby''"
    using validation_precedes_credentials
      [of "json_request (JObj [(''room'', JStr ''lobby''), (''username'', JStr ''alice'')])"
          b room username constant_signer Map.empty] nc
    by (simp add: request_field_def json_request_def)
qed

text \<open>
  Claim C8 as stated fails on a request without a readable body: \<open>room\<close> and \<open>username\<close>
  are missing, \<^verbatim>\<open>request.json()\<close> rejects before any validation, and the response is
  the catch-all 500.
\<close>

theorem unreadable_body_counterexample:
  "request_field \<lparr>req_json = Inl (SyntaxError ''Unexpected end of JSON input'')\<rparr> ''room'' = JUndefined
   \<and> request_field \<lparr>req_json = Inl (SyntaxError ''Unexpected end of JSON input'')\<rparr> ''username'' = JUndefined
   \<and> status (POST constant_signer Map.empty
        \<lparr>req_json = Inl (SyntaxError ''Unexpected end of JSON input'')\<rparr>) = 500
   \<and> POST constant_signer Map.empty
        \<lparr>req_json = Inl (SyntaxError ''Unexpected end of JSON input'')\<rparr> = generation_failed"
  by (simp add: request_field_def POST_def POST_try_def status_simps)

text \<open>
  Claim C5. Whenever the route answers with a token, that token is what the signer made of
  an \<^verbatim>\<open>AccessToken\<close> built from the two credentials with identity the request's
  username and ttl \<^verbatim>\<open>'10m'\<close>, carrying exactly one grant: the requested room with
  \<open>roomJoin\<close>, \<open>canPublish\<close> and \<open>canSubscribe\<close> true, and nothing else.
\<close>

theorem minted_token_grant:
  assumes "get_prop (body (POST toJwt env req)) ''token'' = Inr (JStr t)"
  shows "\<exists>b room username key secret.
           req_json req = Inr b \<and> get_prop b ''room'' = Inr room \<and>
           get_prop b ''username'' = Inr username \<and>
           env ''LIVEKIT_API_KEY'' = Some key \<and> env ''LIVEKIT_API_SECRET'' = Some secret \<and>
           toJwt \<lparr>at_apiKey = JStr key, at_apiSecret = JStr secret,
                   at_options = [(''identity'', username), (''ttl'', JStr ''10m'')],
                   at_grants = [[(''room'', room), (''roomJoin'', JBool True),
                                 (''canPublish'', JBool True), (''canSubscribe'', JBool True)]]\<rparr> = Inr t \<and>
           POST toJwt env req = \<lparr>status = 200, body = JObj [(''token'', JStr t)]\<rparr>"
proof -
  from assms obtain b where b: "req_json req = Inr b"
    by (cases "req_json req") (auto simp add: POST_def POST_try_def status_simps)
  from assms b obtain room where room: "get_prop b ''room'' = Inr room"
    by (cases "get_prop b ''room''") (auto simp add: POST_def POST_try_def status_simps)
  from assms b room obtain username where username: "get_prop b ''username'' = Inr username"
    by (cases "get_prop b ''username''") (auto simp add: POST_def POST_try_def status_simps)
  have tr: "truthy room \<and> truthy username"
  proof (rule ccontr)
    assume "\<not> (truthy room \<and> truthy username)"
    then have "POST toJwt env req = bad_request"
      using POST_falsy_input [OF b room username, of toJwt env] by blast
    with assms show False by (simp add: status_simps)
  qed
  have te: "truthy (env_val (env ''LIVEKIT_API_KEY'')) \<and> truthy (env_val (env ''LIVEKIT_API_SECRET''))"
  proof (rule ccontr)
    assume "\<not> (truthy (env_val (env ''LIVEKIT_API_KEY'')) \<and> truthy (env_val (env ''LIVEKIT_API_SECRET'')))"
    then have "POST toJwt env req = not_configured"
      using tr POST_no_credentials [OF b room username, of env toJwt] by blast
    with assms show False by (simp add: status_simps)
  qed
  then obtain key secret where ks: "env ''LIVEKIT_API_KEY'' = Some key" "env ''LIVEKIT_API_SECRET'' = Some secret"
    by (cases "env ''LIVEKIT_API_KEY''"; cases "env ''LIVEKIT_API_SECRET''") auto
  have "toJwt (spec_AccessToken (JStr key) (JStr secret) room username) = Inr t"
    using assms tr te ks POST_token [OF b room username, of env toJwt]
    by (auto simp add: status_simps NextResponse_json_def split: sum.splits)
  then show ?thesis
    using b room username ks tr te POST_token [OF b room username, of env toJwt]
    by (auto simp add: spec_AccessToken_def NextResponse_json_def)
qed

theorem minted_token_grant_witness:
  "get_prop (body (POST constant_signer configured_env
       (json_request (JObj [(''room'', JStr ''lobby''), (''username'', JStr ''alice'')])))) ''token''
     = Inr (JStr ''jwt'')
   \<and> POST constant_signer configured_env
       (json_request (JObj [(''room'', JStr ''lobby''), (''username'', JStr ''alice'')]))
     = \<lparr>status = 200, body = JObj [(''token'', JStr ''jwt'')]\<rparr>"
proof -
  have h: "get_prop (body (POST constant_signer configured_env
       (json_request (JObj [(''room'', JStr ''lobby''), (''username'', JStr ''alice'')])))) ''token''
     = Inr (JStr ''jwt'')"
    by (simp add: POST_def POST_try_def json_request_def configured_env_def constant_signer_def
        NextResponse_json_def)
  from minted_token_grant [OF h] h show ?thesis by blast
qed
section \<open>The page component: transcript, subscriptions, join flow\<close>

subsection \<open>Two invocations of the stream handler, evaluated\<close>

lemma show_nat_examples:
  "show_nat 1700000000123 = ''1700000000123''" "show_nat 1700000000456 = ''1700000000456''"
  by (simp_all add: show_nat.simps digit_char_def)

lemma build_message_fields:
  assumes "build_message c = Inr m"
  shows "isFinal m"
    and "participant m = (if str_includes (sc_identity c) ''agent'' then ''Agent'' else ''You'')"
    and "sc_readAll c = Inr (msg_text m)"
    and "timestamp m = sc_date c"
  using assms
  by (auto simp add: build_message_def Let_def split: sum.splits option.splits)

lemma build_user_call: "build_message user_call =
  Inr \<lparr>msg_id = ''user-1700000000000-1700000000123-0.5'', participant = ''You'', msg_text = ''hello'',
       timestamp = 1700000000123, isFinal = True, isTyping = None\<rparr>"
  by (simp add: build_message_def user_call_def Let_def show_nat_examples)

lemma build_agent_call: "build_message agent_call =
  Inr \<lparr>msg_id = ''agent-AJ_1-1700000000456-0.25'', participant = ''Agent'', msg_text = ''sunny today'',
       timestamp = 1700000000456, isFinal = True, isTyping = None\<rparr>"
  by (simp add: build_message_def agent_call_def Let_def show_nat_examples)

subsection \<open>The mounted component\<close>

lemma mount_new_room:
  "useEffect_room livekit (w\<lparr>w_room := Some new_room\<rparr>) =
     Inr (w\<lparr>w_room := Some
              \<lparr>listeners =
                 [(Connected, \<lparr>fn_id = next_fn w + 3, fn_code = SetIsConnected True\<rparr>),
                  (Disconnected, \<lparr>fn_id = next_fn w + 4, fn_code = SetIsConnected False\<rparr>),
                  (TrackPublished, \<lparr>fn_id = next_fn w + 1, fn_code = HandleTrackPublished\<rparr>),
                  (TrackUnpublished, \<lparr>fn_id = next_fn w + 2, fn_code = HandleTrackUnpublished\<rparr>)],
                textStreamHandlers =
                 [(''lk.transcription'', \<lparr>fn_id = next_fn w, fn_code = HandleTranscriptionStream\<rparr>)]\<rparr>,
            next_fn := next_fn w + 5\<rparr>,
          Some \<lparr>cl_handleTrackPublished = \<lparr>fn_id = next_fn w + 1, fn_code = HandleTrackPublished\<rparr>,
                cl_handleTrackUnpublished = \<lparr>fn_id = next_fn w + 2, fn_code = HandleTrackUnpublished\<rparr>\<rparr>)"
  by (simp add: useEffect_room_def new_fn_def register_guarded_def try_register_def livekit_def
      new_room_def upd_room_def room_on_def Let_def)

lemma mounted_world_eq:
  "mounted_world =
     \<lparr>w_room = Some
        \<lparr>listeners =
           [(Connected, \<lparr>fn_id = 3, fn_code = SetIsConnected True\<rparr>),
            (Disconnected, \<lparr>fn_id = 4, fn_code = SetIsConnected False\<rparr>),
            (TrackPublished, \<lparr>fn_id = 1, fn_code = HandleTrackPublished\<rparr>),
            (TrackUnpublished, \<lparr>fn_id = 2, fn_code = HandleTrackUnpublished\<rparr>)],
         textStreamHandlers =
           [(''lk.transcription'', \<lparr>fn_id = 0, fn_code = HandleTranscriptionStream\<rparr>)]\<rparr>,
      isConnected = False, chatMessages = [], isAgentTyping = False, console = [], next_fn = 5\<rparr>"
proof -
  have "initial_world = initial_world\<lparr>w_room := Some new_room\<rparr>"
    by (simp add: initial_world_def)
  then have "useEffect_room livekit initial_world
               = useEffect_room livekit (initial_world\<lparr>w_room := Some new_room\<rparr>)"
    by simp
  then show ?thesis
    unfolding mounted_world_def mount_new_room
    by (simp add: initial_world_def)
qed

lemma run_snoc: "run K w (acts @ [a]) = step K (run K w acts) a"
  by (simp add: run_def)

lemma run_append: "run K w (acts @ rest) = run K (run K w acts) rest"
  by (simp add: run_def)

lemma w_room_handler: "w_room (handleTranscriptionStream c w) = w_room w"
  by (simp add: handleTranscriptionStream_def setChatMessages_def Let_def split: sum.splits)

lemma w_room_call_fn: "w_room (call_fn cb p w) = w_room w"
  by (cases cb; cases p)
     (simp_all add: handleTrackPublished_def handleTrackUnpublished_def w_room_handler)

lemma w_room_listeners: "w_room (foldl (\<lambda>w f. call_fn (fn_code f) p w) w fs) = w_room w"
  by (induction fs arbitrary: w) (simp_all add: w_room_call_fn)

lemma w_room_step_livekit: "w_room (step livekit w a) = w_room w"
proof (cases a)
  case (Transcription c)
  then show ?thesis by (simp add: w_room_handler)
next
  case (Emit ev p)
  then show ?thesis by (simp add: emit_def w_room_listeners)
next
  case EndCall
  then show ?thesis
    by (cases "w_room w")
       (simp_all add: disconnect_def setChatMessages_def upd_room_def livekit_def Let_def)
qed

lemma w_room_run_livekit: "w_room (run livekit w acts) = w_room w"
  by (induction acts rule: rev_induct) (simp_all add: run_snoc w_room_step_livekit, simp add: run_def)

lemma mounted_listeners:
  assumes "w_room w = w_room mounted_world"
  shows "listeners_of Connected w = [\<lparr>fn_id = 3, fn_code = SetIsConnected True\<rparr>]"
    and "listeners_of Disconnected w = [\<lparr>fn_id = 4, fn_code = SetIsConnected False\<rparr>]"
    and "listeners_of TrackPublished w = [\<lparr>fn_id = 1, fn_code = HandleTrackPublished\<rparr>]"
    and "listeners_of TrackUnpublished w = [\<lparr>fn_id = 2, fn_code = HandleTrackUnpublished\<rparr>]"
  using assms by (simp_all add: listeners_of_def mounted_world_eq)

lemma chatMessages_call_fn_other:
  "cb \<noteq> HandleTranscriptionStream \<Longrightarrow> chatMessages (call_fn cb p w) = chatMessages w"
  by (cases cb; cases p) (simp_all add: handleTrackPublished_def handleTrackUnpublished_def)

lemma mounted_emit:
  assumes "w_room w = w_room mounted_world"
  shows "chatMessages (emit ev p w) = chatMessages w"
  using mounted_listeners [OF assms]
  by (cases ev) (simp_all add: emit_def chatMessages_call_fn_other)

lemma mounted_emit_Disconnected:
  assumes "w_room w = w_room mounted_world"
  shows "\<not> isConnected (emit Disconnected p w)"
  using mounted_listeners [OF assms] by (simp add: emit_def)

lemma chatMessages_disconnect: "chatMessages (disconnect K w) = []"
  by (simp add: disconnect_def setChatMessages_def upd_room_def Let_def)

subsection \<open>The transcript under the cap\<close>

lemma length_slice_from_end: "length (slice_from_end n xs) = min n (length xs)"
  by (simp add: slice_from_end_def)

lemma slice_from_end_rev: "slice_from_end n xs = rev (take n (rev xs))"
  by (simp add: slice_from_end_def take_rev)

lemma slice_from_end_absorb:
  "slice_from_end n (slice_from_end n xs @ ys) = slice_from_end n (xs @ ys)"
  by (simp add: slice_from_end_rev min_def)

lemma slice_from_end_short: "length xs \<le> n \<Longrightarrow> slice_from_end n xs = xs"
  by (simp add: slice_from_end_def)

lemma slice_from_end_snoc:
  "0 < n \<Longrightarrow> slice_from_end n (xs @ [x]) = drop (Suc (length xs) - n) xs @ [x]"
  by (simp add: slice_from_end_def)

lemma list_all_slice_from_end: "list_all P xs \<Longrightarrow> list_all P (slice_from_end n xs)"
  by (auto simp add: slice_from_end_def list_all_iff dest: in_set_dropD)

lemma chatMessages_handler:
  "chatMessages (handleTranscriptionStream c w) =
    (case build_message c of
       Inl e \<Rightarrow> chatMessages w
     | Inr m \<Rightarrow> slice_from_end 50 (chatMessages w @ [m]))"
  by (simp add: handleTranscriptionStream_def setChatMessages_def Let_def split: sum.splits)

lemma handler_preserves:
  assumes step: "\<And>xs m c. P xs \<Longrightarrow> build_message c = Inr m \<Longrightarrow> P (slice_from_end 50 (xs @ [m]))"
    and "P (chatMessages w)"
  shows "P (chatMessages (handleTranscriptionStream c w))"
  using assms by (cases "build_message c") (simp_all add: chatMessages_handler)

lemma call_fn_preserves:
  assumes step: "\<And>xs m c. P xs \<Longrightarrow> build_message c = Inr m \<Longrightarrow> P (slice_from_end 50 (xs @ [m]))"
    and "P (chatMessages w)"
  shows "P (chatMessages (call_fn cb p w))"
proof (cases cb)
  case (SetIsConnected b)
  with assms show ?thesis by simp
next
  case HandleTrackPublished
  with assms show ?thesis by (cases p) (simp_all add: handleTrackPublished_def)
next
  case HandleTrackUnpublished
  with assms show ?thesis by (cases p) (simp_all add: handleTrackUnpublished_def)
next
  case HandleTranscriptionStream
  with assms handler_preserves [of P w] show ?thesis by (cases p) simp_all
qed

lemma listeners_preserve:
  assumes step: "\<And>xs m c. P xs \<Longrightarrow> build_message c = Inr m \<Longrightarrow> P (slice_from_end 50 (xs @ [m]))"
  shows "P (chatMessages w) \<Longrightarrow> P (chatMessages (foldl (\<lambda>w f. call_fn (fn_code f) p w) w fs))"
proof (induction fs arbitrary: w)
  case Nil
  then show ?case by simp
next
  case (Cons f fs)
  from call_fn_preserves [of P w "fn_code f" p] step Cons.prems
  have "P (chatMessages (call_fn (fn_code f) p w))" by blast
  from Cons.IH [OF this] show ?case by simp
qed

lemma step_preserves:
  assumes empty: "P []"
    and step: "\<And>xs m c. P xs \<Longrightarrow> build_message c = Inr m \<Longrightarrow> P (slice_from_end 50 (xs @ [m]))"
    and w: "P (chatMessages w)"
  shows "P (chatMessages (step K w a))"
proof (cases a)
  case (Transcription c)
  with handler_preserves [of P w c] step w show ?thesis by simp
next
  case (Emit ev p)
  with listeners_preserve [of P w p "listeners_of ev w"] step w show ?thesis
    by (simp add: emit_def)
next
  case EndCall
  with empty show ?thesis
    by (simp add: disconnect_def setChatMessages_def upd_room_def Let_def)
qed

lemma run_preserves:
  assumes empty: "P []"
    and step: "\<And>xs m c. P xs \<Longrightarrow> build_message c = Inr m \<Longrightarrow> P (slice_from_end 50 (xs @ [m]))"
  shows "P (chatMessages w) \<Longrightarrow> P (chatMessages (run K w acts))"
  unfolding run_def
proof (induction acts arbitrary: w)
  case Nil
  then show ?case by simp
next
  case (Cons a acts)
  from step_preserves [of P w K a] empty step Cons.prems
  have "P (chatMessages (step K w a))" by blast
  from Cons.IH [OF this] show ?case by simp
qed

lemma handlers_fold:
  "length (chatMessages w) \<le> 50 \<Longrightarrow>
   chatMessages (foldl (\<lambda>w c. handleTranscriptionStream c w) w cs)
     = slice_from_end 50 (chatMessages w @ concat (map appended cs))"
proof (induction cs arbitrary: w)
  case Nil
  then show ?case by (simp add: slice_from_end_short)
next
  case (Cons c cs)
  let ?w' = "handleTranscriptionStream c w"
  show ?case
  proof (cases "build_message c")
    case (Inl e)
    then have same: "chatMessages ?w' = chatMessages w" and none: "appended c = []"
      by (simp_all add: chatMessages_handler appended_def)
    with Cons.prems have "length (chatMessages ?w') \<le> 50" by simp
    from Cons.IH [OF this] same none show ?thesis by simp
  next
    case (Inr m)
    then have new: "chatMessages ?w' = slice_from_end 50 (chatMessages w @ [m])"
      and one: "appended c = [m]"
      by (simp_all add: chatMessages_handler appended_def)
    then have "length (chatMessages ?w') \<le> 50"
      by (simp add: length_slice_from_end)
    from Cons.IH [OF this] new one show ?thesis
      using slice_from_end_absorb [of 50 "chatMessages w @ [m]" "concat (map appended cs)"]
      by simp
  qed
qed

lemma mounted_transcript:
  "chatMessages (run livekit mounted_world acts) = slice_from_end 50 (appended_since_end_call acts)"
proof (induction acts rule: rev_induct)
  case Nil
  show ?case
    by (simp add: run_def appended_since_end_call_def slice_from_end_def mounted_world_eq)
next
  case (snoc a acts)
  let ?w = "run livekit mounted_world acts"
  have room: "w_room ?w = w_room mounted_world"
    by (rule w_room_run_livekit)
  have col: "appended_since_end_call (acts @ [b]) = collect (appended_since_end_call acts) b" for b
    by (simp add: appended_since_end_call_def)
  show ?case
  proof (cases a)
    case (Transcription c)
    show ?thesis
    proof (cases "build_message c")
      case (Inl e)
      with Transcription snoc.IH show ?thesis
        by (simp add: run_snoc col chatMessages_handler appended_def)
    next
      case (Inr m)
      with Transcription snoc.IH show ?thesis
        by (simp add: run_snoc col chatMessages_handler appended_def slice_from_end_absorb)
    qed
  next
    case (Emit ev p)
    with snoc.IH mounted_emit [OF room] show ?thesis
      by (simp add: run_snoc col)
  next
    case EndCall
    then show ?thesis
      by (simp add: run_snoc col chatMessages_disconnect slice_from_end_def)
  qed
qed

text \<open>
  Claim C2. From an empty transcript, whatever the component goes through, the list never
  holds more than 50 entries. One invocation of the stream handler keeps a final segment of
  the entries that were there, in their order and unchanged, and puts what it appends
  after them. After any sequence of invocations the list is the last 50 (all, when there are
  fewer) of the messages appended, in the order they were appended; and over everything the
  mounted component goes through, it is the last 50 of the messages appended since the
  last End Call.
\<close>

theorem transcript_capped_append_only:
  "length (chatMessages (run K (w\<lparr>chatMessages := []\<rparr>) acts)) \<le> 50
   \<and> (\<exists>k. chatMessages (handleTranscriptionStream c w) = drop k (chatMessages w) @ appended c)
   \<and> chatMessages (foldl (\<lambda>w c. handleTranscriptionStream c w) (w\<lparr>chatMessages := []\<rparr>) cs)
       = slice_from_end 50 (concat (map appended cs))
   \<and> chatMessages (run livekit mounted_world acts) = slice_from_end 50 (appended_since_end_call acts)"
proof (intro conjI)
  show "length (chatMessages (run K (w\<lparr>chatMessages := []\<rparr>) acts)) \<le> 50"
    by (rule run_preserves [where P = "\<lambda>xs. length xs \<le> 50"])
       (simp_all add: length_slice_from_end)
  show "\<exists>k. chatMessages (handleTranscriptionStream c w) = drop k (chatMessages w) @ appended c"
  proof (cases "build_message c")
    case (Inl e)
    then have "chatMessages (handleTranscriptionStream c w) = drop 0 (chatMessages w) @ appended c"
      by (simp add: chatMessages_handler appended_def)
    then show ?thesis ..
  next
    case (Inr m)
    then have "chatMessages (handleTranscriptionStream c w)
                 = drop (Suc (length (chatMessages w)) - 50) (chatMessages w) @ appended c"
      by (simp add: chatMessages_handler appended_def slice_from_end_snoc)
    then show ?thesis ..
  qed
  show "chatMessages (foldl (\<lambda>w c. handleTranscriptionStream c w) (w\<lparr>chatMessages := []\<rparr>) cs)
       = slice_from_end 50 (concat (map appended cs))"
    using handlers_fold [of "w\<lparr>chatMessages := []\<rparr>" cs] by simp
  show "chatMessages (run livekit mounted_world acts) = slice_from_end 50 (appended_since_end_call acts)"
    by (rule mounted_transcript)
qed

subsection \<open>Finality and rendering\<close>

lemma final_className:
  "isFinal m \<Longrightarrow> text_className m = ''text-sm text-blue-900 '' \<or> text_className m = ''text-sm text-gray-900 ''"
  by (simp add: text_className_def)

text \<open>
  Claim C9. Every message the stream handler builds has \<open>isFinal\<close> set; so every entry
  of the transcript, whatever the component went through since the empty transcript, is
  final, and its paragraph is rendered with the plain class, never with
  \<^verbatim>\<open>italic opacity-75\<close>.
\<close>

theorem displayed_messages_final:
  "(build_message c = Inr m \<longrightarrow> isFinal m)
   \<and> list_all isFinal (chatMessages (run K (w\<lparr>chatMessages := []\<rparr>) acts))
   \<and> (\<forall>d \<in> set (chatMessages (run K (w\<lparr>chatMessages := []\<rparr>) acts)).
         text_className d = ''text-sm text-blue-900 '' \<or> text_className d = ''text-sm text-gray-900 '')"
proof -
  have all: "list_all isFinal (chatMessages (run K (w\<lparr>chatMessages := []\<rparr>) acts))"
    by (rule run_preserves [where P = "list_all isFinal"])
       (simp_all add: list_all_slice_from_end build_message_fields(1))
  then have "\<forall>d \<in> set (chatMessages (run K (w\<lparr>chatMessages := []\<rparr>) acts)).
         text_className d = ''text-sm text-blue-900 '' \<or> text_className d = ''text-sm text-gray-900 ''"
    using final_className by (auto simp add: list_all_iff)
  with all build_message_fields(1) [of c m] show ?thesis by blast
qed

theorem displayed_messages_final_witness:
  "build_message agent_call =
     Inr \<lparr>msg_id = ''agent-AJ_1-1700000000456-0.25'', participant = ''Agent'', msg_text = ''sunny today'',
          timestamp = 1700000000456, isFinal = True, isTyping = None\<rparr>
   \<and> list_all isFinal (chatMessages (run livekit (initial_world\<lparr>chatMessages := []\<rparr>)
                                        [Transcription agent_call, Transcription user_call]))
   \<and> map text_className (chatMessages (run livekit (initial_world\<lparr>chatMessages := []\<rparr>)
                                        [Transcription agent_call, Transcription user_call]))
       = [''text-sm text-blue-900 '', ''text-sm text-gray-900 '']"
proof -
  have "list_all isFinal (chatMessages (run livekit (initial_world\<lparr>chatMessages := []\<rparr>)
                                        [Transcription agent_call, Transcription user_call]))"
    using displayed_messages_final
      [of agent_call _ livekit initial_world "[Transcription agent_call, Transcription user_call]"]
    by blast
  moreover have "map text_className (chatMessages (run livekit (initial_world\<lparr>chatMessages := []\<rparr>)
                                        [Transcription agent_call, Transcription user_call]))
       = [''text-sm text-blue-900 '', ''text-sm text-gray-900 '']"
    by (simp add: run_def chatMessages_handler build_agent_call build_user_call
        slice_from_end_def text_className_def initial_world_def)
  ultimately show ?thesis
    using build_agent_call by simp
qed

subsection \<open>The source label\<close>

lemma starts_with_iff: "starts_with s sub \<longleftrightarrow> (\<exists>q. s = sub @ q)"
  by (induction s sub rule: starts_with.induct) auto

lemma str_includes_iff: "str_includes s sub \<longleftrightarrow> (\<exists>p q. s = p @ sub @ q)"
proof (induction s)
  case Nil
  then show ?case by auto
next
  case (Cons c cs)
  have "(\<exists>p q. c # cs = p @ sub @ q) \<longleftrightarrow> (\<exists>q. c # cs = sub @ q) \<or> (\<exists>p q. cs = p @ sub @ q)"
  proof
    assume "\<exists>p q. c # cs = p @ sub @ q"
    then obtain p q where pq: "c # cs = p @ sub @ q" by blast
    show "(\<exists>q. c # cs = sub @ q) \<or> (\<exists>p q. cs = p @ sub @ q)"
    proof (cases p)
      case Nil
      with pq show ?thesis by auto
    next
      case (Cons a p')
      with pq have "cs = p' @ sub @ q" by simp
      then show ?thesis by blast
    qed
  next
    assume "(\<exists>q. c # cs = sub @ q) \<or> (\<exists>p q. cs = p @ sub @ q)"
    then show "\<exists>p q. c # cs = p @ sub @ q"
    proof
      assume "\<exists>q. c # cs = sub @ q"
      then obtain q where "c # cs = [] @ sub @ q" by auto
      then show ?thesis by blast
    next
      assume "\<exists>p q. cs = p @ sub @ q"
      then obtain p q where "c # cs = (c # p) @ sub @ q" by auto
      then show ?thesis by blast
    qed
  qed
  with Cons.IH show ?case by (simp add: starts_with_iff)
qed

text \<open>
  Claim C10. The entry that an invocation of the stream handler appends is labelled
  \<^verbatim>\<open>Agent\<close> when the speaker's identity contains \<^verbatim>\<open>agent\<close> as a substring and
  \<^verbatim>\<open>You\<close> otherwise: one of these two values, fixed by the identity alone.
\<close>

theorem source_label_from_identity:
  assumes "build_message c = Inr m"
  shows "chatMessages (handleTranscriptionStream c w) \<noteq> []
     \<and> last (chatMessages (handleTranscriptionStream c w)) = m
     \<and> participant m = (if str_includes (sc_identity c) ''agent'' then ''Agent'' else ''You'')
     \<and> (participant m = ''Agent'' \<or> participant m = ''You'')
     \<and> (str_includes (sc_identity c) ''agent'' \<longleftrightarrow> (\<exists>p q. sc_identity c = p @ ''agent'' @ q))"
proof -
  have "chatMessages (handleTranscriptionStream c w)
          = drop (Suc (length (chatMessages w)) - 50) (chatMessages w) @ [m]"
    using assms by (simp add: chatMessages_handler slice_from_end_snoc)
  then have "chatMessages (handleTranscriptionStream c w) \<noteq> []"
    and "last (chatMessages (handleTranscriptionStream c w)) = m"
    by simp_all
  moreover have "participant m = (if str_includes (sc_identity c) ''agent'' then ''Agent'' else ''You'')"
    using assms by (rule build_message_fields(2))
  moreover from this have "participant m = ''Agent'' \<or> participant m = ''You''"
    by (simp split: if_splits)
  ultimately show ?thesis
    using str_includes_iff [of "sc_identity c" "''agent''"] by blast
qed

theorem source_label_from_identity_witness:
  "build_message agent_call =
     Inr \<lparr>msg_id = ''agent-AJ_1-1700000000456-0.25'', participant = ''Agent'', msg_text = ''sunny today'',
          timestamp = 1700000000456, isFinal = True, isTyping = None\<rparr>
   \<and> participant (last (chatMessages (handleTranscriptionStream agent_call initial_world))) = ''Agent''
   \<and> str_includes (sc_identity agent_call) ''agent''"
proof -
  note m = build_agent_call
  from source_label_from_identity [OF m, of initial_world] m show ?thesis
    by (simp add: agent_call_def split: if_splits)
qed

subsection \<open>Disconnecting\<close>

text \<open>
  Claim C3, as the code has it. The End Call control empties the transcript and clears the
  typing indicator, in every state. For the mounted component: after End Call the
  transcript is empty whatever came before; the room's \<^verbatim>\<open>Disconnected\<close> event, whose
  listener only sets \<open>isConnected\<close> to false, leaves the transcript as it was.
\<close>

theorem end_call_discards_transcript:
  "chatMessages (disconnect K w) = [] \<and> \<not> isAgentTyping (disconnect K w)
   \<and> chatMessages (run livekit mounted_world (acts @ [EndCall])) = []
   \<and> chatMessages (run livekit mounted_world (acts @ [Emit Disconnected p]))
       = chatMessages (run livekit mounted_world acts)
   \<and> \<not> isConnected (run livekit mounted_world (acts @ [Emit Disconnected p]))"
proof (intro conjI)
  show "chatMessages (disconnect K w) = []"
    by (rule chatMessages_disconnect)
  show "\<not> isAgentTyping (disconnect K w)"
    by (simp add: disconnect_def setChatMessages_def upd_room_def Let_def)
  show "chatMessages (run livekit mounted_world (acts @ [EndCall])) = []"
    by (simp add: run_snoc chatMessages_disconnect)
  have room: "w_room (run livekit mounted_world acts) = w_room mounted_world"
    by (rule w_room_run_livekit)
  show "chatMessages (run livekit mounted_world (acts @ [Emit Disconnected p]))
       = chatMessages (run livekit mounted_world acts)"
    by (simp add: run_snoc mounted_emit [OF room])
  show "\<not> isConnected (run livekit mounted_world (acts @ [Emit Disconnected p]))"
    by (simp add: run_snoc mounted_emit_Disconnected [OF room])
qed

text \<open>
  Claim C3 as stated fails for a disconnect that the platform initiates: connected, with
  one transcribed message shown, the \<^verbatim>\<open>Disconnected\<close> event leaves the component
  disconnected and the message still in the transcript.
\<close>

theorem platform_disconnect_keeps_transcript_counterexample:
  "isConnected (run livekit mounted_world [Emit Connected NoPayload, Transcription user_call])
   \<and> \<not> isConnected (run livekit mounted_world
          [Emit Connected NoPayload, Transcription user_call, Emit Disconnected NoPayload])
   \<and> map msg_text (chatMessages (run livekit mounted_world
          [Emit Connected NoPayload, Transcription user_call, Emit Disconnected NoPayload])) = [''hello'']"
  by (simp add: run_def emit_def listeners_of_def mounted_world_eq handleTranscriptionStream_def
      build_user_call setChatMessages_def slice_from_end_def Let_def)

subsection \<open>Unmounting\<close>

text \<open>
  Claim C4 does not hold of the code. Mounting on a room with nothing attached and then
  running the cleanup removes the stream handler and the two track listeners, but the
  \<^verbatim>\<open>Connected\<close> and \<^verbatim>\<open>Disconnected\<close> listeners stay attached: the cleanup
  hands \<^verbatim>\<open>room.off\<close> two arrow functions made on the spot (identities 5 and 6), not
  the ones that were registered (identities 3 and 4).
\<close>

theorem cleanup_leaves_connection_listeners:
  "mount_unmount livekit initial_world =
     Inr \<lparr>w_room = Some
            \<lparr>listeners =
               [(Connected, \<lparr>fn_id = 3, fn_code = SetIsConnected True\<rparr>),
                (Disconnected, \<lparr>fn_id = 4, fn_code = SetIsConnected False\<rparr>)],
             textStreamHandlers = []\<rparr>,
          isConnected = False, chatMessages = [], isAgentTyping = False, console = [], next_fn = 7\<rparr>"
  by (simp add: mount_unmount_def useEffect_room_def run_cleanup_def new_fn_def register_guarded_def
      try_register_def unregister_guarded_def try_unregister_def livekit_def initial_world_def
      new_room_def upd_room_def room_on_def room_off_def same_listener_def Let_def)

lemma remove_first_none: "\<forall>x \<in> set xs. \<not> P x \<Longrightarrow> remove_first P xs = xs"
  by (induction xs) auto

lemma remove_first_fresh:
  assumes "\<forall>l \<in> set ls. fn_id (snd l) < n" and "n \<le> fn_id f"
  shows "remove_first (same_listener ev f) (rev ls) = rev ls"
  using assms by (intro remove_first_none) (auto simp add: same_listener_def)

text \<open>
  The same on every room whose listeners were made before (their identities lie below the
  next one to be given out) and that has no handler for the topic yet: after mount and
  unmount the room has two listeners more than before.
\<close>

lemma mount_unmount_leaves_connection_listeners:
  assumes room: "w_room w = Some r"
    and fresh: "\<forall>l \<in> set (listeners r). fn_id (snd l) < next_fn w"
    and free: "map_of (textStreamHandlers r) ''lk.transcription'' = None"
  shows "mount_unmount livekit w =
           Inr (w\<lparr>w_room := Some
                   \<lparr>listeners = listeners r @
                      [(Connected, \<lparr>fn_id = next_fn w + 3, fn_code = SetIsConnected True\<rparr>),
                       (Disconnected, \<lparr>fn_id = next_fn w + 4, fn_code = SetIsConnected False\<rparr>)],
                    textStreamHandlers =
                      filter (\<lambda>h. fst h \<noteq> ''lk.transcription'') (textStreamHandlers r)\<rparr>,
                 next_fn := next_fn w + 7\<rparr>)"
proof -
  note rf = remove_first_fresh [OF fresh]
  show ?thesis
    using room free
    by (simp add: mount_unmount_def useEffect_room_def run_cleanup_def new_fn_def
        register_guarded_def try_register_def unregister_guarded_def try_unregister_def livekit_def
        upd_room_def room_on_def room_off_def same_listener_def rf Let_def)
qed

subsection \<open>Guards around registration and unregistration\<close>

lemma register_guarded_cases:
  "register_guarded K h r w =
    (case registerTextStreamHandler K ''lk.transcription'' h r of
       Inl e \<Rightarrow> Inr (w\<lparr>console := console w @ [ConsoleWarn ''Transcription handler already registered:'' e]\<rparr>)
     | Inr r' \<Rightarrow> Inr (w\<lparr>w_room := Some r'\<rparr>))"
  by (simp add: register_guarded_def try_register_def split: sum.splits)

lemma unregister_guarded_cases:
  "unregister_guarded K r w =
    (case unregisterTextStreamHandler K ''lk.transcription'' r of
       Inl e \<Rightarrow> Inr (w\<lparr>console := console w @ [ConsoleWarn ''Error unregistering transcription handler:'' e]\<rparr>)
     | Inr r' \<Rightarrow> Inr (w\<lparr>w_room := Some r'\<rparr>))"
  by (simp add: unregister_guarded_def try_unregister_def split: sum.splits)

lemma useEffect_room_returns: "\<exists>res. useEffect_room K w = Inr res"
  by (simp add: useEffect_room_def register_guarded_cases new_fn_def Let_def
      split: option.splits sum.splits prod.splits)

lemma run_cleanup_returns: "\<exists>w'. run_cleanup K cl w = Inr w'"
  by (simp add: run_cleanup_def unregister_guarded_cases new_fn_def Let_def
      split: option.splits sum.splits prod.splits)

lemma useEffect_room_register_fails:
  assumes "w_room w = Some r"
    and "registerTextStreamHandler K ''lk.transcription''
           \<lparr>fn_id = next_fn w, fn_code = HandleTranscriptionStream\<rparr> r = Inl e"
  shows "\<exists>w' cl. useEffect_room K w = Inr (w', Some cl) \<and>
           console w' = console w @ [ConsoleWarn ''Transcription handler already registered:'' e] \<and>
           chatMessages w' = chatMessages w \<and> isConnected w' = isConnected w \<and>
           isAgentTyping w' = isAgentTyping w"
  using assms
  by (simp add: useEffect_room_def register_guarded_cases new_fn_def upd_room_def Let_def)

lemma run_cleanup_unregister_fails:
  assumes "w_room w = Some r"
    and "unregisterTextStreamHandler K ''lk.transcription'' r = Inl e"
  shows "\<exists>w'. run_cleanup K cl w = Inr w' \<and>
           console w' = console w @ [ConsoleWarn ''Error unregistering transcription handler:'' e] \<and>
           chatMessages w' = chatMessages w \<and> isConnected w' = isConnected w \<and>
           isAgentTyping w' = isAgentTyping w"
  using assms
  by (simp add: run_cleanup_def unregister_guarded_cases new_fn_def upd_room_def Let_def)

text \<open>
  Claim C7. Whatever the library's registration and unregistration calls do, the effect
  and its cleanup return and never throw. When the registration throws, the effect writes
  one console warning with the error, leaves what the user sees (transcript, connection
  badge, typing indicator) as it was and still returns its cleanup; when the
  unregistration throws, the cleanup does the same.
\<close>

theorem handler_registration_failures_logged:
  "(\<exists>res. useEffect_room K w = Inr res)
   \<and> (\<exists>w'. run_cleanup K cl w = Inr w')
   \<and> (w_room w = Some r \<and>
        registerTextStreamHandler K ''lk.transcription''
          \<lparr>fn_id = next_fn w, fn_code = HandleTranscriptionStream\<rparr> r = Inl e \<longrightarrow>
        (\<exists>w' c. useEffect_room K w = Inr (w', Some c) \<and>
           console w' = console w @ [ConsoleWarn ''Transcription handler already registered:'' e] \<and>
           chatMessages w' = chatMessages w \<and> isConnected w' = isConnected w \<and>
           isAgentTyping w' = isAgentTyping w))
   \<and> (w_room w = Some r \<and> unregisterTextStreamHandler K ''lk.transcription'' r = Inl e \<longrightarrow>
        (\<exists>w'. run_cleanup K cl w = Inr w' \<and>
           console w' = console w @ [ConsoleWarn ''Error unregistering transcription handler:'' e] \<and>
           chatMessages w' = chatMessages w \<and> isConnected w' = isConnected w \<and>
           isAgentTyping w' = isAgentTyping w))"
  using useEffect_room_returns [of K w] run_cleanup_returns [of K cl w]
    useEffect_room_register_fails [of w r K e] run_cleanup_unregister_fails [of w r K e cl]
  by blast

lemma livekit_register_twice:
  "registerTextStreamHandler livekit ''lk.transcription'' h
     \<lparr>listeners = ls, textStreamHandlers = [(''lk.transcription'', g)]\<rparr>
   = Inl (TypeError ''A text stream handler for this topic has already been set.'')"
  by (simp add: livekit_def)

theorem handler_registration_failures_logged_witness:
  "(\<exists>w' c. useEffect_room livekit mounted_world = Inr (w', Some c) \<and>
      console w' = [ConsoleWarn ''Transcription handler already registered:''
                      (TypeError ''A text stream handler for this topic has already been set.'')] \<and>
      chatMessages w' = [] \<and> \<not> isConnected w' \<and> \<not> isAgentTyping w')
   \<and> (\<exists>w'. run_cleanup failing_unregister
               \<lparr>cl_handleTrackPublished = \<lparr>fn_id = 1, fn_code = HandleTrackPublished\<rparr>,
                cl_handleTrackUnpublished = \<lparr>fn_id = 2, fn_code = HandleTrackUnpublished\<rparr>\<rparr>
               mounted_world = Inr w' \<and>
      console w' = [ConsoleWarn ''Error unregistering transcription handler:'' (Error ''unregister failed'')] \<and>
      chatMessages w' = [] \<and> \<not> isConnected w' \<and> \<not> isAgentTyping w')"
proof (intro conjI)
  have reg: "w_room mounted_world = Some
        \<lparr>listeners =
           [(Connected, \<lparr>fn_id = 3, fn_code = SetIsConnected True\<rparr>),
            (Disconnected, \<lparr>fn_id = 4, fn_code = SetIsConnected False\<rparr>),
            (TrackPublished, \<lparr>fn_id = 1, fn_code = HandleTrackPublished\<rparr>),
            (TrackUnpublished, \<lparr>fn_id = 2, fn_code = HandleTrackUnpublished\<rparr>)],
         textStreamHandlers =
           [(''lk.transcription'', \<lparr>fn_id = 0, fn_code = HandleTranscriptionStream\<rparr>)]\<rparr>
      \<and> registerTextStreamHandler livekit ''lk.transcription''
          \<lparr>fn_id = next_fn mounted_world, fn_code = HandleTranscriptionStream\<rparr>
          \<lparr>listeners =
           [(Connected, \<lparr>fn_id = 3, fn_code = SetIsConnected True\<rparr>),
            (Disconnected, \<lparr>fn_id = 4, fn_code = SetIsConnected False\<rparr>),
            (TrackPublished, \<lparr>fn_id = 1, fn_code = HandleTrackPublished\<rparr>),
            (TrackUnpublished, \<lparr>fn_id = 2, fn_code = HandleTrackUnpublished\<rparr>)],
         textStreamHandlers =
           [(''lk.transcription'', \<lparr>fn_id = 0, fn_code = HandleTranscriptionStream\<rparr>)]\<rparr>
        = Inl (TypeError ''A text stream handler for this topic has already been set.'')"
    by (simp add: mounted_world_eq livekit_register_twice)
  have st: "console mounted_world = []" "chatMessages mounted_world = []"
    "\<not> isConnected mounted_world" "\<not> isAgentTyping mounted_world"
    by (simp_all add: mounted_world_eq)
  from handler_registration_failures_logged [where K = livekit and w = mounted_world] reg st
  show "\<exists>w' c. useEffect_room livekit mounted_world = Inr (w', Some c) \<and>
      console w' = [ConsoleWarn ''Transcription handler already registered:''
                      (TypeError ''A text stream handler for this topic has already been set.'')] \<and>
      chatMessages w' = [] \<and> \<not> isConnected w' \<and> \<not> isAgentTyping w'"
    by fastforce
  have unreg: "unregisterTextStreamHandler failing_unregister ''lk.transcription'' r0
                 = Inl (Error ''unregister failed'')" for r0
    by (simp add: failing_unregister_def)
  have room: "\<exists>r0. w_room mounted_world = Some r0"
    by (simp add: mounted_world_eq)
  then obtain r0 where r0: "w_room mounted_world = Some r0" ..
  from handler_registration_failures_logged
    [where K = failing_unregister and w = mounted_world and r = r0 and e = "Error ''unregister failed''"
       and cl = "\<lparr>cl_handleTrackPublished = \<lparr>fn_id = 1, fn_code = HandleTrackPublished\<rparr>,
                cl_handleTrackUnpublished = \<lparr>fn_id = 2, fn_code = HandleTrackUnpublished\<rparr>\<rparr>"]
    r0 unreg [of r0] st
  show "\<exists>w'. run_cleanup failing_unregister
               \<lparr>cl_handleTrackPublished = \<lparr>fn_id = 1, fn_code = HandleTrackPublished\<rparr>,
                cl_handleTrackUnpublished = \<lparr>fn_id = 2, fn_code = HandleTrackUnpublished\<rparr>\<rparr>
               mounted_world = Inr w' \<and>
      console w' = [ConsoleWarn ''Error unregistering transcription handler:'' (Error ''unregister failed'')] \<and>
      chatMessages w' = [] \<and> \<not> isConnected w' \<and> \<not> isAgentTyping w'"
    by fastforce
qed

subsection \<open>The join flow\<close>

lemma joinRoom_failure:
  assumes "joinRoom_try f = Inl e"
  shows "joinRoom f h =
           h\<lparr>isJoining := False,
             home_console := home_console h @ [ConsoleError ''Error joining room:'' e],
             alerts := alerts h @ [''Failed to join room. Please try again.'']\<rparr>"
  using assms by (simp add: joinRoom_def Let_def)

text \<open>
  Claim C6. A rejected fetch and a response that is not ok are both errors thrown in the
  \<^verbatim>\<open>try\<close> block of \<^verbatim>\<open>joinRoom\<close>; whenever an error is thrown there, the alert
  "Failed to join room. Please try again." is shown, the token state is left as it was,
  and the join screen, if it was shown, still is.
\<close>

theorem token_fetch_failure_alerts:
  "joinRoom_try (FetchRejected e) = Inl e
   \<and> joinRoom_try (FetchResponse False js) = Inl (Error ''Failed to get token'')
   \<and> (joinRoom_try f = Inl e \<longrightarrow>
        alerts (joinRoom f h) = alerts h @ [''Failed to join room. Please try again.''] \<and>
        token (joinRoom f h) = token h \<and>
        \<not> isJoining (joinRoom f h) \<and>
        (shows_join_screen h \<longrightarrow> shows_join_screen (joinRoom f h)))"
proof (intro conjI impI)
  show "joinRoom_try (FetchRejected e) = Inl e"
    and "joinRoom_try (FetchResponse False js) = Inl (Error ''Failed to get token'')"
    by (simp_all add: joinRoom_try_def)
next
  assume f: "joinRoom_try f = Inl e"
  note eq = joinRoom_failure [OF f, of h]
  show "alerts (joinRoom f h) = alerts h @ [''Failed to join room. Please try again.'']"
    and "token (joinRoom f h) = token h" and "\<not> isJoining (joinRoom f h)"
    by (simp_all add: eq)
  assume "shows_join_screen h"
  then show "shows_join_screen (joinRoom f h)"
    by (simp add: eq shows_join_screen_def)
qed

theorem token_fetch_failure_alerts_witness:
  "joinRoom_try (FetchResponse False (Inr (JObj [(''error'', JStr ''LiveKit credentials not configured'')])))
     = Inl (Error ''Failed to get token'')
   \<and> shows_join_screen initial_home
   \<and> alerts (joinRoom (FetchResponse False (Inr (JObj [(''error'', JStr ''LiveKit credentials not configured'')])))
                initial_home) = [''Failed to join room. Please try again.'']
   \<and> token (joinRoom (FetchResponse False (Inr (JObj [(''error'', JStr ''LiveKit credentials not configured'')])))
                initial_home) = JStr []
   \<and> shows_join_screen
        (joinRoom (FetchResponse False (Inr (JObj [(''error'', JStr ''LiveKit credentials not configured'')])))
           initial_home)"
proof -
  have s: "shows_join_screen initial_home"
    by (simp add: shows_join_screen_def initial_home_def)
  from token_fetch_failure_alerts
    [of "Error ''Failed to get token''"
        "Inr (JObj [(''error'', JStr ''LiveKit credentials not configured'')])"
        "FetchResponse False (Inr (JObj [(''error'', JStr ''LiveKit credentials not configured'')]))"
        initial_home] s
  show ?thesis
    by (simp add: initial_home_def)
qed

text \<open>
  The request that the join flow sends names a room and a non-empty username, so the
  route never answers it with the 400 response.
\<close>

lemma join_request_passes_validation:
  "POST toJwt env (json_request (joinRoom_body now)) \<noteq> bad_request"
  by (auto simp add: POST_def POST_try_def json_request_def joinRoom_body_def Let_def
      bad_request_def not_configured_def generation_failed_def NextResponse_json_def
      split: sum.splits)

end
